theory Spec2Isabelle
  imports Complex_Main "HOL-Library.Product_Lexorder"
begin

section \<open>Python values used by the scanner\<close>

text \<open>
  Python floats are modelled as reals (rounding, infinities and NaN are outside the
  model), Python ints as \<open>int\<close>, a Python \<open>str\<close> as the list of its code points.
  An exception that a function can raise is a value \<open>Inl e\<close> of its result.
\<close>

datatype exn =
    ValueError | IndexError | KeyError | ZeroDivisionError | OverflowError
  | UnicodeEncodeError | OSError

type_synonym pystr = "nat list"

text \<open>The four status labels of \<open>core/types.py\<close> (class \<open>Status\<close>), by code point;
  the empty string stands for "no status".\<close>

definition STATUS_ENTRY :: pystr where
  "STATUS_ENTRY = [0x412, 0x425, 0x41E, 0x414]"

definition STATUS_READINESS :: pystr where
  "STATUS_READINESS = [0x413, 0x43E, 0x442, 0x43E, 0x432, 0x43D, 0x43E, 0x441, 0x442, 0x44C]"

definition STATUS_INTEREST :: pystr where
  "STATUS_INTEREST = [0x418, 0x43D, 0x442, 0x435, 0x440, 0x435, 0x441]"

definition STATUS_OBSERVATION :: pystr where
  "STATUS_OBSERVATION = [0x41D, 0x430, 0x431, 0x43B, 0x44E, 0x434, 0x435, 0x43D, 0x438, 0x435]"

definition STATUS_NONE :: pystr where
  "STATUS_NONE = []"

subsection \<open>Indexing and slicing\<close>

text \<open>\<open>py_bound n i\<close> is the position a slice bound \<open>i\<close> denotes in a list of length
  \<open>n\<close>: a negative bound counts from the end, and every bound is cut to \<open>0..n\<close>.\<close>

definition py_bound :: "nat \<Rightarrow> int \<Rightarrow> nat" where
  "py_bound n i = (if i < 0 then nat (int n + i) else min n (nat i))"

text \<open>\<open>xs[a:b]\<close>, \<open>xs[a:]\<close> and \<open>xs[:b]\<close>.\<close>

definition py_slice :: "'a list \<Rightarrow> int \<Rightarrow> int \<Rightarrow> 'a list" where
  "py_slice xs a b =
     take (py_bound (length xs) b - py_bound (length xs) a) (drop (py_bound (length xs) a) xs)"

definition py_from :: "'a list \<Rightarrow> int \<Rightarrow> 'a list" where
  "py_from xs a = drop (py_bound (length xs) a) xs"

definition py_upto :: "'a list \<Rightarrow> int \<Rightarrow> 'a list" where
  "py_upto xs b = take (py_bound (length xs) b) xs"

text \<open>\<open>xs[i]\<close> raises IndexError outside \<open>-len(xs) .. len(xs) - 1\<close>.\<close>

definition py_nth :: "'a list \<Rightarrow> int \<Rightarrow> exn + 'a" where
  "py_nth xs i =
     (if 0 \<le> i \<and> i < int (length xs) then Inr (xs ! nat i)
      else if i < 0 \<and> - int (length xs) \<le> i then Inr (xs ! nat (int (length xs) + i))
      else Inl IndexError)"

text \<open>\<open>max(xs)\<close> and \<open>min(xs)\<close> raise ValueError on an empty sequence.\<close>

fun py_max :: "real list \<Rightarrow> exn + real" where
  "py_max [] = Inl ValueError"
| "py_max (x # xs) = Inr (fold max xs x)"

fun py_min :: "real list \<Rightarrow> exn + real" where
  "py_min [] = Inl ValueError"
| "py_min (x # xs) = Inr (fold min xs x)"

text \<open>\<open>int(x)\<close> on a float truncates towards zero.\<close>

definition py_int :: "real \<Rightarrow> int" where
  "py_int x = (if 0 \<le> x then \<lfloor>x\<rfloor> else \<lceil>x\<rceil>)"

section \<open>Gate parameters (core/params_ml.py)\<close>

text \<open>The fields of \<open>GateParams\<close> that \<open>core/gates.py\<close> reads, with the source's names.\<close>

record GateParams =
  btc_trend_max :: real
  divergence_min :: real
  gate0_enabled :: bool
  shadow_body_ratio :: real
  exhaustion_candles :: int
  high_tolerance_pct :: real
  min_exhaustion_signals :: int
  gate1_enabled :: bool
  range_candles_base :: int
  range_candles_hot :: int
  range_candles_mid :: int
  pump_threshold_hot :: real
  pump_threshold_mid :: real
  breakdown_confirm_pct :: real
  gate2_enabled :: bool
  volume_mult :: real
  volume_lookback :: int
  momentum_threshold :: real
  min_confidence_signals :: int
  gate3_enabled :: bool
  min_funding :: real
  sl_above_range_pct :: real
  tp1_ratio :: real
  tp3_use_low24h :: bool
  min_rr :: real
  v_recovery_candles :: int
  version :: int

text \<open>The dataclass defaults.\<close>

definition default_params :: GateParams where
  "default_params = \<lparr>
     btc_trend_max = 0.5, divergence_min = 5.0, gate0_enabled = True,
     shadow_body_ratio = 1.5, exhaustion_candles = 3, high_tolerance_pct = 0.3,
     min_exhaustion_signals = 2, gate1_enabled = True,
     range_candles_base = 8, range_candles_hot = 14, range_candles_mid = 10,
     pump_threshold_hot = 30.0, pump_threshold_mid = 15.0,
     breakdown_confirm_pct = 0.1, gate2_enabled = True,
     volume_mult = 1.3, volume_lookback = 12, momentum_threshold = 0.0,
     min_confidence_signals = 2, gate3_enabled = True,
     min_funding = 0.0, sl_above_range_pct = 0.5, tp1_ratio = 0.5,
     tp3_use_low24h = True, min_rr = 1.5, v_recovery_candles = 2, version = 1 \<rparr>"

section \<open>Gate results (core/gates.py)\<close>

text \<open>A candle is a dict with the keys ts, open, high, low, close and volume; the code
  reads volume and turnover with \<open>get\<close>, so these two may be absent.\<close>

record candle =
  ts :: int
  copen :: real
  high :: real
  low :: real
  close :: real
  volume :: "real option"
  turnover :: "real option"

text \<open>The entries of \<open>signals\<close> are formatted strings; each constructor is one format
  string of the source, with the numbers it renders.\<close>

datatype signal =
    Sig_disabled
  | Sig_not_enough_candles
  | Sig_BTC_trend real
  | Sig_divergence real
  | Sig_exhaustion_shadows nat
  | Sig_high_flat real
  | Sig_close_declining
  | Sig_breakdown_close real real
  | Sig_retest_failed
  | Sig_momentum real
  | Sig_volume real real real
  | Sig_funding real
  | Sig_dist_increasing real real

datatype dval = DBool bool | DInt int | DReal real

record GateResult =
  passed :: bool
  score :: real
  signals :: "signal list"
  debug :: "(string \<times> dval) list"

text \<open>\<open>GateResult(passed=False)\<close>: the value every gate has before it is evaluated.\<close>

definition gate_default :: GateResult where
  "gate_default = \<lparr> passed = False, score = 0, signals = [], debug = [] \<rparr>"

definition gate_disabled :: GateResult where
  "gate_disabled = \<lparr> passed = True, score = 100, signals = [Sig_disabled], debug = [] \<rparr>"

definition gate_not_enough :: GateResult where
  "gate_not_enough =
     \<lparr> passed = False, score = 0, signals = [Sig_not_enough_candles], debug = [] \<rparr>"

text \<open>The texts assigned to \<open>signal_text\<close>, one constructor per literal of the source.\<close>

datatype signal_text =
    Txt_empty
  | Txt_context_unfit
  | Txt_growth_wait_exhaustion real
  | Txt_exhaustion_wait_breakdown
  | Txt_setup_no_breakdown
  | Txt_v_recovery
  | Txt_breakdown_wait_confirm
  | Txt_rr_below real real
  | Txt_breakdown_confirmed real

record GatesResult =
  gate0 :: GateResult
  gate1 :: GateResult
  gate2 :: GateResult
  gate3 :: GateResult
  all_passed :: bool
  status :: pystr
  signal_text :: signal_text
  entry_price :: real
  sl_price :: real
  tp1_price :: real
  tp2_price :: real
  tp3_price :: real
  rr_ratio :: real
  timestamp :: int
  symbol :: pystr
  params_version :: int

subsection \<open>Gate 0: market context\<close>

definition check_gate0 :: "real \<Rightarrow> real \<Rightarrow> real \<Rightarrow> GateParams \<Rightarrow> GateResult" where
  "check_gate0 btc_trend_1h alt_change_24h btc_change_24h params =
     (if \<not> gate0_enabled params then gate_disabled
      else
        let btc_ok = (btc_trend_1h \<le> btc_trend_max params);
            divergence = alt_change_24h - btc_change_24h;
            div_ok = (divergence \<ge> divergence_min params)
        in \<lparr> passed = (btc_ok \<or> div_ok),
             score = (if btc_ok then 50 else 0) + (if div_ok then 50 else 0),
             signals = (if btc_ok then [Sig_BTC_trend btc_trend_1h] else [])
                     @ (if div_ok then [Sig_divergence divergence] else []),
             debug = [(''btc_trend_1h'', DReal btc_trend_1h),
                      (''btc_change_24h'', DReal btc_change_24h),
                      (''alt_change_24h'', DReal alt_change_24h),
                      (''divergence'', DReal divergence),
                      (''btc_ok'', DBool btc_ok),
                      (''div_ok'', DBool div_ok)] \<rparr>)"

subsection \<open>Gate 1: setup\<close>

text \<open>A candle counts as exhausted when its upper shadow exceeds the body by the ratio.\<close>

definition exhausted :: "GateParams \<Rightarrow> candle \<Rightarrow> bool" where
  "exhausted params c =
     (let body = \<bar>close c - copen c\<bar>;
          upper_shadow = high c - max (close c) (copen c)
      in body > 0 \<and> upper_shadow > body * shadow_body_ratio params)"

text \<open>\<open>all(closes[i] >= closes[i+1] for i in range(len(closes)-1))\<close>\<close>

fun non_increasing :: "real list \<Rightarrow> bool" where
  "non_increasing (x # y # ys) = (x \<ge> y \<and> non_increasing (y # ys))"
| "non_increasing _ = True"

definition check_gate1 :: "candle list \<Rightarrow> GateParams \<Rightarrow> exn + GateResult" where
  "check_gate1 candles_5m params =
     (if \<not> gate1_enabled params then Inr gate_disabled
      else if int (length candles_5m) < exhaustion_candles params then Inr gate_not_enough
      else
        let recent = py_from candles_5m (- exhaustion_candles params);
            exhaustion_count = length (filter (exhausted params) recent);
            highs = map high recent
        in (case py_max highs of Inl e \<Rightarrow> Inl e | Inr max_high \<Rightarrow>
           (case py_min highs of Inl e \<Rightarrow> Inl e | Inr min_high \<Rightarrow>
           let high_range_pct =
                 (if max_high > 0 then (max_high - min_high) / max_high * 100 else 0);
               closes = map close recent;
               close_falling = non_increasing closes
           in (case py_nth closes (-1) of Inl e \<Rightarrow> Inl e | Inr c_last \<Rightarrow>
              (case py_nth closes 0 of Inl e \<Rightarrow> Inl e | Inr c_first \<Rightarrow>
              let close_dropped = (c_last < c_first);
                  s1 = (exhaustion_count \<ge> 2);
                  s2 = (high_range_pct < high_tolerance_pct params);
                  s3 = (close_falling \<or> close_dropped);
                  conditions_met =
                    (if s1 then 1 else 0) + (if s2 then 1 else 0) + (if s3 then (1::nat) else 0)
              in Inr \<lparr> passed = (int conditions_met \<ge> min_exhaustion_signals params),
                       score = (real conditions_met / 3) * 100,
                       signals = (if s1 then [Sig_exhaustion_shadows exhaustion_count] else [])
                               @ (if s2 then [Sig_high_flat high_range_pct] else [])
                               @ (if s3 then [Sig_close_declining] else []),
                       debug = [(''exhaustion_count'', DInt (int exhaustion_count)),
                                (''high_range_pct'', DReal high_range_pct),
                                (''close_falling'', DBool close_falling),
                                (''close_dropped'', DBool close_dropped),
                                (''conditions_met'', DInt (int conditions_met))] \<rparr>)))))"

subsection \<open>Gate 2: trigger\<close>

text \<open>The window of the range grows with the 24h change.\<close>

definition range_window :: "real \<Rightarrow> GateParams \<Rightarrow> int" where
  "range_window change_24h params =
     (if change_24h > pump_threshold_hot params then range_candles_hot params
      else if change_24h > pump_threshold_mid params then range_candles_mid params
      else range_candles_base params)"

text \<open>The result is the triple (GateResult, range_low, range_high) of the source.\<close>

definition check_gate2 ::
    "candle list \<Rightarrow> real \<Rightarrow> GateParams \<Rightarrow> exn + (GateResult \<times> real \<times> real)" where
  "check_gate2 candles_5m change_24h params =
     (if \<not> gate2_enabled params then Inr (gate_disabled, 0, 0)
      else
        let n = range_window change_24h params in
        if int (length candles_5m) < n + 2 then Inr (gate_not_enough, 0, 0)
        else
          let range_candles = py_slice candles_5m (- (n + 2)) (- 2) in
          (case py_max (map high range_candles) of Inl e \<Rightarrow> Inl e | Inr range_high \<Rightarrow>
          (case py_min (map low range_candles) of Inl e \<Rightarrow> Inl e | Inr range_low \<Rightarrow>
          (case py_nth candles_5m (- 2) of Inl e \<Rightarrow> Inl e | Inr prev_candle \<Rightarrow>
          (case py_nth candles_5m (- 1) of Inl e \<Rightarrow> Inl e | Inr last_candle \<Rightarrow>
          let breakdown_threshold = range_low * (1 - breakdown_confirm_pct params / 100);
              breakdown = (close prev_candle < breakdown_threshold);
              retest_failed =
                (close last_candle < range_low \<and> high last_candle < range_low * 1.005)
          in Inr (\<lparr> passed = (breakdown \<and> retest_failed),
                       score = (if breakdown then 50 else 0) + (if retest_failed then 50 else 0),
                       signals =
                         (if breakdown then [Sig_breakdown_close (close prev_candle) range_low]
                          else [])
                         @ (if retest_failed then [Sig_retest_failed] else []),
                       debug = [(''n_candles'', DInt n),
                                (''range_high'', DReal range_high),
                                (''range_low'', DReal range_low),
                                (''prev_close'', DReal (close prev_candle)),
                                (''last_close'', DReal (close last_candle)),
                                (''last_high'', DReal (high last_candle)),
                                (''breakdown'', DBool breakdown),
                                (''retest_failed'', DBool retest_failed)] \<rparr>,
                  range_low, range_high))))))"

subsection \<open>Gate 3: confidence\<close>

text \<open>\<open>c.get("volume", 0) or c.get("turnover", 0)\<close>: the volume when it is present
  and not zero, else the turnover, else 0.\<close>

definition candle_volume :: "candle \<Rightarrow> real" where
  "candle_volume c =
     (let v = (case volume c of None \<Rightarrow> 0 | Some x \<Rightarrow> x)
      in if v \<noteq> 0 then v else (case turnover c of None \<Rightarrow> 0 | Some t \<Rightarrow> t))"

text \<open>The volume condition: \<open>None\<close> when the candle list is shorter than the lookback
  (the condition is skipped), else the triple (volume_ok, last_vol, median_vol).\<close>

definition volume_check ::
    "candle list \<Rightarrow> GateParams \<Rightarrow> exn + (bool \<times> real \<times> real) option" where
  "volume_check candles_5m params =
     (if int (length candles_5m) \<ge> volume_lookback params then
        let volumes = map candle_volume (py_from candles_5m (- volume_lookback params));
            volumes_sorted = sort volumes
        in (case py_nth volumes_sorted (int (length volumes_sorted) div 2) of
              Inl e \<Rightarrow> Inl e
            | Inr median_vol \<Rightarrow>
               let last_vol = (if volumes \<noteq> [] then last volumes else 0)
               in Inr (Some (last_vol \<ge> median_vol * volume_mult params, last_vol, median_vol)))
      else Inr None)"

definition check_gate3 ::
    "candle list \<Rightarrow> real \<Rightarrow> real \<Rightarrow> real \<Rightarrow> real \<Rightarrow> GateParams \<Rightarrow> exn + GateResult" where
  "check_gate3 candles_5m momentum_10m funding_rate dist_to_high prev_dist_to_high params =
     (if \<not> gate3_enabled params then Inr gate_disabled
      else
        let momentum_ok = (momentum_10m \<le> momentum_threshold params) in
        (case volume_check candles_5m params of Inl e \<Rightarrow> Inl e | Inr vol \<Rightarrow>
        let volume_ok = (case vol of None \<Rightarrow> False | Some (ok, _, _) \<Rightarrow> ok);
            funding_ok = (funding_rate > min_funding params);
            dist_increasing = (dist_to_high > prev_dist_to_high);
            conditions_met =
              (if momentum_ok then 1 else 0) + (if volume_ok then 1 else 0)
              + (if funding_ok then 1 else 0) + (if dist_increasing then (1::nat) else 0)
        in Inr \<lparr> passed = (int conditions_met \<ge> min_confidence_signals params),
                 score = (real conditions_met / 4) * 100,
                 signals =
                   (if momentum_ok then [Sig_momentum momentum_10m] else [])
                   @ (case vol of
                        None \<Rightarrow> []
                      | Some (ok, last_vol, median_vol) \<Rightarrow>
                          if ok then [Sig_volume last_vol median_vol (volume_mult params)] else [])
                   @ (if funding_ok then [Sig_funding funding_rate] else [])
                   @ (if dist_increasing then [Sig_dist_increasing prev_dist_to_high dist_to_high]
                      else []),
                 debug = [(''momentum_10m'', DReal momentum_10m),
                          (''momentum_ok'', DBool momentum_ok),
                          (''funding_rate'', DReal funding_rate),
                          (''funding_ok'', DBool funding_ok),
                          (''dist_to_high'', DReal dist_to_high),
                          (''prev_dist_to_high'', DReal prev_dist_to_high),
                          (''dist_increasing'', DBool dist_increasing),
                          (''conditions_met'', DInt (int conditions_met))] \<rparr>))"

subsection \<open>The V-recovery anti-pattern\<close>

definition check_v_recovery :: "candle list \<Rightarrow> real \<Rightarrow> GateParams \<Rightarrow> exn + bool" where
  "check_v_recovery candles_5m range_low params =
     (if int (length candles_5m) < v_recovery_candles params + 1 then Inr False
      else
        let recent = py_from candles_5m (- (v_recovery_candles params + 1));
            was_below = list_ex (\<lambda>c. close c < range_low) (py_upto recent (- 1))
        in (case py_nth recent (- 1) of
              Inl e \<Rightarrow> Inl e
            | Inr c \<Rightarrow> Inr (was_below \<and> close c > range_low)))"

subsection \<open>Trade levels\<close>

text \<open>The result is (sl_price, tp1_price, tp2_price, tp3_price, rr_ratio).\<close>

definition calculate_trade_levels ::
    "real \<Rightarrow> real \<Rightarrow> real \<Rightarrow> real \<Rightarrow> GateParams \<Rightarrow> real \<times> real \<times> real \<times> real \<times> real" where
  "calculate_trade_levels entry range_low range_high low_24h params =
     (let sl = range_high * (1 + sl_above_range_pct params / 100);
          tp1 = entry - (entry - range_low) * tp1_ratio params;
          tp2 = range_low;
          tp3 = (if tp3_use_low24h params \<and> low_24h < tp2 then low_24h else tp2 * 0.99);
          risk = sl - entry;
          reward = entry - tp1;
          rr = (if risk > 0 then reward / risk else 0)
      in (sl, tp1, tp2, tp3, rr))"

text \<open>The risk-reward ratio alone.\<close>

definition trade_rr :: "real \<Rightarrow> real \<Rightarrow> real \<Rightarrow> real \<Rightarrow> GateParams \<Rightarrow> real" where
  "trade_rr entry range_low range_high low_24h params =
     (case calculate_trade_levels entry range_low range_high low_24h params of
        (sl, tp1, tp2, tp3, rr) \<Rightarrow> rr)"

subsection \<open>All gates\<close>

text \<open>The GatesResult that \<open>check_all_gates\<close> builds before it evaluates a gate.
  \<open>clock\<close> is the value \<open>time.time()\<close> returns during the call: the source reads
  the wall clock itself, the model takes the reading as an argument.\<close>

definition gates_initial :: "real \<Rightarrow> pystr \<Rightarrow> GateParams \<Rightarrow> GatesResult" where
  "gates_initial clock symb params =
     \<lparr> gate0 = gate_default, gate1 = gate_default, gate2 = gate_default, gate3 = gate_default,
       all_passed = False, status = STATUS_NONE, signal_text = Txt_empty,
       entry_price = 0, sl_price = 0, tp1_price = 0, tp2_price = 0, tp3_price = 0,
       rr_ratio = 0, timestamp = py_int clock, symbol = symb,
       params_version = version params \<rparr>"

text \<open>The arguments follow the source's order, after the clock reading; \<open>params\<close> is
  the parameter set in force (the caller's, or the one \<open>get_params\<close> found).\<close>

definition check_all_gates ::
    "real \<Rightarrow> pystr \<Rightarrow> candle list \<Rightarrow> real \<Rightarrow> real \<Rightarrow> real \<Rightarrow> real \<Rightarrow> real \<Rightarrow> real
      \<Rightarrow> real \<Rightarrow> real \<Rightarrow> real \<Rightarrow> real \<Rightarrow> GateParams \<Rightarrow> exn + GatesResult" where
  "check_all_gates clock symb candles_5m current_price change_24h range_position dist_to_high
       funding_rate low_24h btc_trend_1h btc_change_24h momentum_10m prev_dist_to_high params =
     (let result = gates_initial clock symb params;
          result = result\<lparr>gate0 := check_gate0 btc_trend_1h change_24h btc_change_24h params\<rparr>
      in
      if \<not> passed (gate0 result) then
        Inr (result\<lparr>status := STATUS_NONE, signal_text := Txt_context_unfit\<rparr>)
      else
      (case check_gate1 candles_5m params of Inl e \<Rightarrow> Inl e | Inr g1 \<Rightarrow>
      let result = result\<lparr>gate1 := g1\<rparr> in
      if \<not> passed (gate1 result) then
        (if range_position > 70 \<or> change_24h > 8 then
           Inr (result\<lparr>status := STATUS_OBSERVATION,
                       signal_text := Txt_growth_wait_exhaustion change_24h\<rparr>)
         else Inr result)
      else
      (case check_gate2 candles_5m change_24h params of
         Inl e \<Rightarrow> Inl e
       | Inr (gate2_result, range_low, range_high) \<Rightarrow>
      let result = result\<lparr>gate2 := gate2_result\<rparr> in
      if \<not> passed (gate2 result) then
        (if range_position > 80 \<and> change_24h > 10 then
           Inr (result\<lparr>status := STATUS_INTEREST,
                       signal_text := Txt_exhaustion_wait_breakdown\<rparr>)
         else
           Inr (result\<lparr>status := STATUS_OBSERVATION, signal_text := Txt_setup_no_breakdown\<rparr>))
      else
      (case check_v_recovery candles_5m range_low params of Inl e \<Rightarrow> Inl e | Inr veto \<Rightarrow>
      if veto then
        Inr (result\<lparr>status := STATUS_OBSERVATION, signal_text := Txt_v_recovery\<rparr>)
      else
      (case check_gate3 candles_5m momentum_10m funding_rate dist_to_high prev_dist_to_high
              params of
         Inl e \<Rightarrow> Inl e
       | Inr g3 \<Rightarrow>
      let result = result\<lparr>gate3 := g3\<rparr> in
      if \<not> passed (gate3 result) then
        Inr (result\<lparr>status := STATUS_READINESS, signal_text := Txt_breakdown_wait_confirm\<rparr>)
      else
      let result = result\<lparr>all_passed := True\<rparr>;
          entry = current_price
      in (case calculate_trade_levels entry range_low range_high low_24h params of
            (sl, tp1, tp2, tp3, rr) \<Rightarrow>
      if rr < min_rr params then
        Inr (result\<lparr>status := STATUS_READINESS,
                    signal_text := Txt_rr_below rr (min_rr params)\<rparr>)
      else
        Inr (result\<lparr>entry_price := entry, sl_price := sl, tp1_price := tp1,
                    tp2_price := tp2, tp3_price := tp3, rr_ratio := rr,
                    status := STATUS_ENTRY,
                    signal_text := Txt_breakdown_confirmed rr\<rparr>)))))))"

subsection \<open>Candle series used as concrete inputs\<close>

text \<open>A candle with equal open and close. \<open>breakdown_candles\<close> is a range with low 99
  and high 200 followed by a confirmed breakdown; in \<open>reclaim_candles\<close> the last candle
  closes back above the range low; \<open>negative_dip_candles\<close> dips below zero and returns.\<close>

definition flat_candle :: "real \<Rightarrow> real \<Rightarrow> real \<Rightarrow> candle" where
  "flat_candle h l c =
     \<lparr> ts = 0, copen = c, high = h, low = l, close = c, volume = Some 1, turnover = None \<rparr>"

definition range_head :: "candle list" where
  "range_head =
     [flat_candle 200 150 160, flat_candle 100 99.5 99.8, flat_candle 100 99.5 99.8,
      flat_candle 100 99.5 99.8, flat_candle 100 99.5 99.8, flat_candle 100 99.5 99.8,
      flat_candle 100 99.5 99.8]"

definition breakdown_candles :: "candle list" where
  "breakdown_candles =
     range_head @ [flat_candle 99.1 99 99.05, flat_candle 99.1 98.7 98.8, flat_candle 99 98.6 98.7]"

definition reclaim_candles :: "candle list" where
  "reclaim_candles =
     range_head @ [flat_candle 99.4 99 99.3, flat_candle 99.4 98.7 98.8, flat_candle 99.3 98.8 99.2]"


definition uneven_high_candles :: "candle list" where
  "uneven_high_candles =
     range_head @ [flat_candle 105 99 99.05, flat_candle 99.1 98.7 98.8, flat_candle 99 98.6 98.7]"

definition all_disabled :: GateParams where
  "all_disabled = default_params\<lparr>gate0_enabled := False, gate1_enabled := False,
     gate2_enabled := False, gate3_enabled := False\<rparr>"

text \<open>The defaults with gate 2 switched off.\<close>

definition no_gate2 :: GateParams where
  "no_gate2 = default_params\<lparr>gate2_enabled := False\<rparr>"

text \<open>The same with a minimum risk-reward of 0.\<close>

definition no_gate2_rr0 :: GateParams where
  "no_gate2_rr0 = default_params\<lparr>gate2_enabled := False, min_rr := 0\<rparr>"


section \<open>The one-second scheduler tick (main.py)\<close>

text \<open>The part of \<open>MainWindow\<close> that \<open>_tick_all_levels\<close> and the start functions read
  and write. \<open>rows_nonempty\<close> is the truth value of \<open>self.rows\<close>; a
  \<open>*_worker_running\<close> flag says that the worker object exists and \<open>isRunning()\<close>;
  \<open>started\<close> lists the workers started so far, oldest first.\<close>

datatype worker = ScannerW | PriceUpdateW | PumpDetectorW | CandidatesUpdateW

record MainWindow =
  rows_nonempty :: bool
  scan_in_progress :: bool
  cand_update_in_progress :: bool
  price_update_in_progress :: bool
  pump_detect_in_progress :: bool
  price_worker_running :: bool
  pump_worker_running :: bool
  cand_worker_running :: bool
  full_countdown :: int
  price_countdown :: int
  pump_countdown :: int
  cand_countdown :: int
  started :: "worker list"

definition start_scan :: "MainWindow \<Rightarrow> MainWindow" where
  "start_scan w =
     (if scan_in_progress w then w
      else w\<lparr>scan_in_progress := True, started := started w @ [ScannerW]\<rparr>)"

definition start_price_update :: "MainWindow \<Rightarrow> MainWindow" where
  "start_price_update w =
     (if \<not> rows_nonempty w then w
      else if price_update_in_progress w then w
      else if scan_in_progress w then w
      else if price_worker_running w then w
      else w\<lparr>price_update_in_progress := True, price_worker_running := True,
             started := started w @ [PriceUpdateW]\<rparr>)"

definition start_pump_detect :: "MainWindow \<Rightarrow> MainWindow" where
  "start_pump_detect w =
     (if \<not> rows_nonempty w \<or> pump_detect_in_progress w then w
      else if pump_worker_running w then w
      else w\<lparr>pump_detect_in_progress := True, pump_worker_running := True,
             started := started w @ [PumpDetectorW]\<rparr>)"

definition start_cand_update :: "MainWindow \<Rightarrow> MainWindow" where
  "start_cand_update w =
     (if \<not> rows_nonempty w \<or> cand_update_in_progress w then w
      else if cand_worker_running w then w
      else w\<lparr>cand_update_in_progress := True, cand_worker_running := True,
             started := started w @ [CandidatesUpdateW]\<rparr>)"

text \<open>The four blocks of \<open>_tick_all_levels\<close>, in the order of the source: level 3, level 2,
  level 1, candidates.\<close>

definition tick_level3 :: "MainWindow \<Rightarrow> MainWindow" where
  "tick_level3 w =
     (if \<not> pump_detect_in_progress w \<and> rows_nonempty w then
        let w = w\<lparr>pump_countdown := pump_countdown w - 1\<rparr> in
        if pump_countdown w \<le> 0 then start_pump_detect (w\<lparr>pump_countdown := 10\<rparr>) else w
      else w)"

definition tick_level2 :: "MainWindow \<Rightarrow> MainWindow" where
  "tick_level2 w =
     (if \<not> price_update_in_progress w \<and> \<not> scan_in_progress w \<and> rows_nonempty w then
        let w = w\<lparr>price_countdown := price_countdown w - 1\<rparr> in
        if price_countdown w \<le> 0 then start_price_update (w\<lparr>price_countdown := 30\<rparr>) else w
      else w)"

definition tick_level1 :: "MainWindow \<Rightarrow> MainWindow" where
  "tick_level1 w =
     (if \<not> scan_in_progress w then
        let w = w\<lparr>full_countdown := full_countdown w - 1\<rparr> in
        if full_countdown w \<le> 0 then
          start_scan (w\<lparr>full_countdown := 120, price_countdown := 30, pump_countdown := 10\<rparr>)
        else w
      else w)"

definition tick_candidates :: "MainWindow \<Rightarrow> MainWindow" where
  "tick_candidates w =
     (if \<not> scan_in_progress w \<and> \<not> cand_update_in_progress w \<and> rows_nonempty w then
        let w = w\<lparr>cand_countdown := cand_countdown w - 1\<rparr> in
        if cand_countdown w \<le> 0 then start_cand_update (w\<lparr>cand_countdown := 5\<rparr>) else w
      else w)"

definition tick_all_levels :: "MainWindow \<Rightarrow> MainWindow" where
  "tick_all_levels w = tick_candidates (tick_level1 (tick_level2 (tick_level3 w)))"

text \<open>The guard of each level and whether the level fires in the tick that starts in \<open>w\<close>.\<close>

definition level3_counts :: "MainWindow \<Rightarrow> bool" where
  "level3_counts w = (\<not> pump_detect_in_progress w \<and> rows_nonempty w)"

definition level2_counts :: "MainWindow \<Rightarrow> bool" where
  "level2_counts w = (\<not> price_update_in_progress w \<and> \<not> scan_in_progress w \<and> rows_nonempty w)"

definition level1_counts :: "MainWindow \<Rightarrow> bool" where
  "level1_counts w = (\<not> scan_in_progress w)"

definition level3_fires :: "MainWindow \<Rightarrow> bool" where
  "level3_fires w = (level3_counts w \<and> pump_countdown w - 1 \<le> 0)"

definition level2_fires :: "MainWindow \<Rightarrow> bool" where
  "level2_fires w = (level2_counts w \<and> price_countdown w - 1 \<le> 0)"

definition level1_fires :: "MainWindow \<Rightarrow> bool" where
  "level1_fires w = (level1_counts w \<and> full_countdown w - 1 \<le> 0)"

text \<open>The candidates block is evaluated after level 1, so a level 1 that fires in the
  same tick blocks it.\<close>

definition cand_fires :: "MainWindow \<Rightarrow> bool" where
  "cand_fires w =
     (\<not> scan_in_progress w \<and> \<not> level1_fires w \<and> \<not> cand_update_in_progress w
      \<and> rows_nonempty w \<and> cand_countdown w - 1 \<le> 0)"


text \<open>The state at start-up (\<open>__init__\<close>), before any row is loaded.\<close>

definition initial_window :: MainWindow where
  "initial_window = \<lparr> rows_nonempty = False, scan_in_progress = False,
     cand_update_in_progress = False, price_update_in_progress = False,
     pump_detect_in_progress = False, price_worker_running = False,
     pump_worker_running = False, cand_worker_running = False,
     full_countdown = 120, price_countdown = 30, pump_countdown = 10, cand_countdown = 5,
     started = [] \<rparr>"

section \<open>Indicator formulas (core/engine_v2.py)\<close>

















section \<open>Price helpers (core/math_utils.py)\<close>

definition clamp :: "real \<Rightarrow> real \<Rightarrow> real \<Rightarrow> real" where
  "clamp x lo hi = max lo (min hi x)"

text \<open>\<open>range_position(price, low, high)\<close>; the name carries a suffix because
  \<open>range_position\<close> is also a field of \<open>CoinRow\<close>.\<close>

definition range_position_f :: "real \<Rightarrow> real \<Rightarrow> real \<Rightarrow> real" where
  "range_position_f price lo hi =
     (if hi \<le> lo then 50.0 else clamp ((price - lo) / (hi - lo) * 100) 0 100)"

definition dist_to_high_pct :: "real \<Rightarrow> real \<Rightarrow> real" where
  "dist_to_high_pct price hi = (if price \<le> 0 then 0.0 else (hi - price) / price * 100)"

section \<open>Instrument rows (core/types.py)\<close>

text \<open>The fields of \<open>CoinRow\<close> that the price refresh and the bridge read or write.\<close>

record CoinRow =
  symbol :: pystr
  price_now :: real
  high_24h :: real
  low_24h :: real
  change_24h_pct :: real
  vol24_m :: int
  funding_rate :: real
  range_position :: real
  dist_high_pct :: real
  short_prob :: real
  short_conf :: real
  candidate_pct :: real
  entry_price :: real
  sl_price :: real
  tp1 :: real
  tp2 :: real
  rr :: real
  status :: pystr
  watch_type :: pystr
  signal :: pystr
  score :: real
  gate0_passed :: bool
  gate1_passed :: bool
  gate2_passed :: bool
  gate3_passed :: bool
  grade :: pystr
  valid :: bool
  last_update :: real
  added_at :: real

text \<open>\<open>CoinRow()\<close> with the dataclass defaults.\<close>

definition default_row :: CoinRow where
  "default_row = \<lparr> symbol = [], price_now = 0, high_24h = 0, low_24h = 0, change_24h_pct = 0,
     vol24_m = 0, funding_rate = 0, range_position = 0, dist_high_pct = 0, short_prob = 0,
     short_conf = 0, candidate_pct = 0, entry_price = 0, sl_price = 0, tp1 = 0, tp2 = 0, rr = 0,
     status = [], watch_type = [], signal = [], score = 0, gate0_passed = False,
     gate1_passed = False, gate2_passed = False, gate3_passed = False, grade = [],
     valid = True, last_update = 0, added_at = 0 \<rparr>"

section \<open>The price refresh of one row (workers/scanner_worker.py)\<close>

text \<open>A ticker after \<open>float(ticker.get(key, 0) or 0)\<close> has been applied to the five keys
  that \<open>PriceUpdateWorker.run\<close> reads.\<close>

record ticker =
  lastPrice :: real
  highPrice24h :: real
  lowPrice24h :: real
  price24hPcnt :: real
  fundingRate :: real

text \<open>The body of the loop of \<open>PriceUpdateWorker.run\<close> for a row whose ticker was found;
  \<open>t_added\<close> and \<open>t_update\<close> are the two readings of \<open>time.time()\<close>.\<close>

definition refresh_status :: "CoinRow \<Rightarrow> CoinRow" where
  "refresh_status row =
     (if range_position row > 90 \<and> change_24h_pct row > 5 then
        (if status row \<noteq> STATUS_ENTRY then row\<lparr>status := STATUS_READINESS\<rparr> else row)
      else if range_position row > 85 \<and> change_24h_pct row > 3 then
        (if status row \<noteq> STATUS_READINESS \<and> status row \<noteq> STATUS_ENTRY
         then row\<lparr>status := STATUS_INTEREST\<rparr> else row)
      else if range_position row > 80 \<and> change_24h_pct row > 2 then
        (if status row \<noteq> STATUS_INTEREST \<and> status row \<noteq> STATUS_READINESS
            \<and> status row \<noteq> STATUS_ENTRY
         then row\<lparr>status := STATUS_OBSERVATION\<rparr> else row)
      else row)"

definition update_prices :: "CoinRow \<Rightarrow> ticker \<Rightarrow> real \<Rightarrow> real \<Rightarrow> CoinRow" where
  "update_prices row0 t t_added t_update =
     (let row = row0\<lparr>price_now := lastPrice t, high_24h := highPrice24h t,
                     low_24h := lowPrice24h t, change_24h_pct := price24hPcnt t * 100,
                     funding_rate := fundingRate t\<rparr>;
          row = (if high_24h row > low_24h row
                 then row\<lparr>range_position :=
                        (price_now row - low_24h row) / (high_24h row - low_24h row) * 100\<rparr>
                 else row);
          row = (if high_24h row > 0
                 then row\<lparr>dist_high_pct := (high_24h row - price_now row) / high_24h row * 100\<rparr>
                 else row);
          old_status = status row;
          row = refresh_status row;
          row = (if old_status \<noteq> status row \<and> added_at row = 0
                 then row\<lparr>added_at := t_added\<rparr> else row)
      in row\<lparr>last_update := t_update\<rparr>)"

definition ticker_above_high :: ticker where
  "ticker_above_high = \<lparr> lastPrice = 120, highPrice24h = 110, lowPrice24h = 90,
     price24hPcnt = 0.2, fundingRate = 0 \<rparr>"

definition ticker_in_range :: ticker where
  "ticker_in_range = \<lparr> lastPrice = 100, highPrice24h = 110, lowPrice24h = 90,
     price24hPcnt = 0.05, fundingRate = 0 \<rparr>"

section \<open>The bridge snapshot (core/bridge.py)\<close>

text \<open>A JSON document as \<open>json.load\<close> returns it.\<close>

datatype json =
    JNull
  | JBool bool
  | JInt int
  | JReal real
  | JStr pystr
  | JList "json list"
  | JObj "(string \<times> json) list"

text \<open>\<open>d.get(key, default)\<close> on a dict kept as an association list.\<close>

definition dict_get :: "(string \<times> json) list \<Rightarrow> string \<Rightarrow> json \<Rightarrow> json" where
  "dict_get d k dflt = (case map_of d k of None \<Rightarrow> dflt | Some v \<Rightarrow> v)"

definition row_to_dict :: "CoinRow \<Rightarrow> (string \<times> json) list" where
  "row_to_dict row =
     [(''symbol'', JStr (symbol row)),
      (''status'', JStr (status row)),
      (''score'', JReal (score row)),
      (''watch_type'', JStr (watch_type row)),
      (''signal'', JStr (py_upto (signal row) 100)),
      (''price_now'', JReal (price_now row)),
      (''high_24h'', JReal (high_24h row)),
      (''low_24h'', JReal (low_24h row)),
      (''change_24h_pct'', JReal (change_24h_pct row)),
      (''vol24h_m'', JInt (vol24_m row)),
      (''range_position'', JReal (range_position row)),
      (''dist_high_pct'', JReal (dist_high_pct row)),
      (''entry'', JReal (entry_price row)),
      (''sl'', JReal (sl_price row)),
      (''tp1'', JReal (tp1 row)),
      (''tp2'', JReal (tp2 row)),
      (''rr'', JReal (rr row)),
      (''short_prob'', JReal (short_prob row)),
      (''short_conf'', JReal (short_conf row)),
      (''candidate_pct'', JReal (candidate_pct row)),
      (''gate0_passed'', JBool (gate0_passed row)),
      (''gate1_passed'', JBool (gate1_passed row)),
      (''gate2_passed'', JBool (gate2_passed row)),
      (''gate3_passed'', JBool (gate3_passed row)),
      (''grade'', JStr (grade row))]"

text \<open>\<open>status_priority.get(s, 99)\<close>\<close>

definition status_priority :: "pystr \<Rightarrow> nat" where
  "status_priority s =
     (if s = STATUS_ENTRY then 0
      else if s = STATUS_READINESS then 1
      else if s = STATUS_INTEREST then 2
      else if s = STATUS_OBSERVATION then 3
      else if s = STATUS_NONE then 4
      else 99)"

text \<open>The sort key of an item: the pair (status priority, minus score), compared as Python
  compares tuples. The dicts of \<open>_row_to_dict\<close> carry a string status and a float score;
  the remaining cases are there to make the function total.\<close>

definition item_key :: "(string \<times> json) list \<Rightarrow> nat \<times> real" where
  "item_key x =
     ((case dict_get x ''status'' (JStr []) of JStr s \<Rightarrow> status_priority s | _ \<Rightarrow> 99),
      - (case dict_get x ''score'' (JInt 0) of
           JReal v \<Rightarrow> v | JInt i \<Rightarrow> real_of_int i | _ \<Rightarrow> 0))"

text \<open>The store \<open>rows\<close> is a dict in insertion order: a list of (symbol, row) pairs.\<close>

definition collect_items :: "(pystr \<times> CoinRow) list \<Rightarrow> (string \<times> json) list list" where
  "collect_items rows = map (\<lambda>(sy, row). row_to_dict row) (filter (\<lambda>(sy, row). valid row) rows)"

text \<open>\<open>items.sort(key=...)\<close>: Python's sort is stable, as is \<open>sort_key\<close>.\<close>

definition sorted_items :: "(pystr \<times> CoinRow) list \<Rightarrow> (string \<times> json) list list" where
  "sorted_items rows = sort_key item_key (collect_items rows)"

definition top_items :: "(pystr \<times> CoinRow) list \<Rightarrow> int \<Rightarrow> (string \<times> json) list list" where
  "top_items rows top_n = py_upto (sorted_items rows) top_n"






definition BRIDGE_FILENAME :: string where
  "BRIDGE_FILENAME = ''bridge_snapshot.json''"

definition bridge_path :: "string \<Rightarrow> string" where
  "bridge_path bridge_dir = bridge_dir @ ''/'' @ BRIDGE_FILENAME"










definition row_named :: "pystr \<Rightarrow> pystr \<times> CoinRow" where
  "row_named sy = (sy, default_row\<lparr>symbol := sy\<rparr>)"


section \<open>The gate pipeline: exits of \<open>check_all_gates\<close>\<close>

lemma status_distinct:
  "STATUS_ENTRY \<noteq> STATUS_READINESS" "STATUS_ENTRY \<noteq> STATUS_INTEREST"
  "STATUS_ENTRY \<noteq> STATUS_OBSERVATION" "STATUS_ENTRY \<noteq> STATUS_NONE"
  "STATUS_READINESS \<noteq> STATUS_INTEREST" "STATUS_READINESS \<noteq> STATUS_OBSERVATION"
  "STATUS_READINESS \<noteq> STATUS_NONE" "STATUS_INTEREST \<noteq> STATUS_OBSERVATION"
  "STATUS_INTEREST \<noteq> STATUS_NONE" "STATUS_OBSERVATION \<noteq> STATUS_NONE"
  by (simp_all add: STATUS_ENTRY_def STATUS_READINESS_def STATUS_INTEREST_def
      STATUS_OBSERVATION_def STATUS_NONE_def)

lemma gate_default_not_passed: "\<not> passed gate_default"
  by (simp add: gate_default_def)

lemma stop_at_gate0:
  assumes "\<not> passed (check_gate0 bt ch bc params)"
  shows "check_all_gates clock symb cs price ch rp dth fr l24 bt bc mom pdth params =
         Inr ((gates_initial clock symb params)
               \<lparr>gate0 := check_gate0 bt ch bc params, GatesResult.status := STATUS_NONE,
                signal_text := Txt_context_unfit\<rparr>)"
  using assms by (simp add: check_all_gates_def Let_def)

lemma stop_at_gate1:
  assumes "passed (check_gate0 bt ch bc params)"
    and "check_gate1 cs params = Inr g1" and "\<not> passed g1"
  shows "check_all_gates clock symb cs price ch rp dth fr l24 bt bc mom pdth params =
         Inr (if rp > 70 \<or> ch > 8
              then (gates_initial clock symb params)
                     \<lparr>gate0 := check_gate0 bt ch bc params, gate1 := g1,
                      GatesResult.status := STATUS_OBSERVATION,
                      signal_text := Txt_growth_wait_exhaustion ch\<rparr>
              else (gates_initial clock symb params)
                     \<lparr>gate0 := check_gate0 bt ch bc params, gate1 := g1\<rparr>)"
  using assms by (simp add: check_all_gates_def Let_def)

lemma stop_at_gate2:
  assumes "passed (check_gate0 bt ch bc params)"
    and "check_gate1 cs params = Inr g1" and "passed g1"
    and "check_gate2 cs ch params = Inr (g2, lo, hi)" and "\<not> passed g2"
  shows "check_all_gates clock symb cs price ch rp dth fr l24 bt bc mom pdth params =
         Inr (if rp > 80 \<and> ch > 10
              then (gates_initial clock symb params)
                     \<lparr>gate0 := check_gate0 bt ch bc params, gate1 := g1, gate2 := g2,
                      GatesResult.status := STATUS_INTEREST,
                      signal_text := Txt_exhaustion_wait_breakdown\<rparr>
              else (gates_initial clock symb params)
                     \<lparr>gate0 := check_gate0 bt ch bc params, gate1 := g1, gate2 := g2,
                      GatesResult.status := STATUS_OBSERVATION,
                      signal_text := Txt_setup_no_breakdown\<rparr>)"
  using assms by (simp add: check_all_gates_def Let_def)

lemma stop_at_veto:
  assumes "passed (check_gate0 bt ch bc params)"
    and "check_gate1 cs params = Inr g1" and "passed g1"
    and "check_gate2 cs ch params = Inr (g2, lo, hi)" and "passed g2"
    and "check_v_recovery cs lo params = Inr True"
  shows "check_all_gates clock symb cs price ch rp dth fr l24 bt bc mom pdth params =
         Inr ((gates_initial clock symb params)
                \<lparr>gate0 := check_gate0 bt ch bc params, gate1 := g1, gate2 := g2,
                 GatesResult.status := STATUS_OBSERVATION, signal_text := Txt_v_recovery\<rparr>)"
  using assms by (simp add: check_all_gates_def Let_def)

lemma stop_at_gate3:
  assumes "passed (check_gate0 bt ch bc params)"
    and "check_gate1 cs params = Inr g1" and "passed g1"
    and "check_gate2 cs ch params = Inr (g2, lo, hi)" and "passed g2"
    and "check_v_recovery cs lo params = Inr False"
    and "check_gate3 cs mom fr dth pdth params = Inr g3" and "\<not> passed g3"
  shows "check_all_gates clock symb cs price ch rp dth fr l24 bt bc mom pdth params =
         Inr ((gates_initial clock symb params)
                \<lparr>gate0 := check_gate0 bt ch bc params, gate1 := g1, gate2 := g2, gate3 := g3,
                 GatesResult.status := STATUS_READINESS, signal_text := Txt_breakdown_wait_confirm\<rparr>)"
  using assms by (simp add: check_all_gates_def Let_def)

lemma all_gates_passed:
  assumes "passed (check_gate0 bt ch bc params)"
    and "check_gate1 cs params = Inr g1" and "passed g1"
    and "check_gate2 cs ch params = Inr (g2, lo, hi)" and "passed g2"
    and "check_v_recovery cs lo params = Inr False"
    and "check_gate3 cs mom fr dth pdth params = Inr g3" and "passed g3"
    and "calculate_trade_levels price lo hi l24 params = (sl, t1, t2, t3, q)"
  shows "check_all_gates clock symb cs price ch rp dth fr l24 bt bc mom pdth params =
         Inr (if q < min_rr params
              then (gates_initial clock symb params)
                \<lparr>gate0 := check_gate0 bt ch bc params, gate1 := g1, gate2 := g2, gate3 := g3,
                 all_passed := True,
                 GatesResult.status := STATUS_READINESS, signal_text := Txt_rr_below q (min_rr params)\<rparr>
              else (gates_initial clock symb params)
                \<lparr>gate0 := check_gate0 bt ch bc params, gate1 := g1, gate2 := g2, gate3 := g3,
                 all_passed := True,
                 GatesResult.entry_price := price, GatesResult.sl_price := sl, tp1_price := t1, tp2_price := t2,
                 tp3_price := t3, rr_ratio := q,
                 GatesResult.status := STATUS_ENTRY, signal_text := Txt_breakdown_confirmed q\<rparr>)"
  using assms by (simp add: check_all_gates_def Let_def)

text \<open>Every run that returns went through exactly one of the seven exits.\<close>

lemma check_all_gates_cases:
  assumes "check_all_gates clock symb cs price ch rp dth fr l24 bt bc mom pdth params = Inr r"
  obtains
    (g0) "\<not> passed (check_gate0 bt ch bc params)"
  | (g1) g1 where "passed (check_gate0 bt ch bc params)" "check_gate1 cs params = Inr g1"
      "\<not> passed g1"
  | (g2) g1 g2 lo hi where "passed (check_gate0 bt ch bc params)"
      "check_gate1 cs params = Inr g1" "passed g1"
      "check_gate2 cs ch params = Inr (g2, lo, hi)" "\<not> passed g2"
  | (veto) g1 g2 lo hi where "passed (check_gate0 bt ch bc params)"
      "check_gate1 cs params = Inr g1" "passed g1"
      "check_gate2 cs ch params = Inr (g2, lo, hi)" "passed g2"
      "check_v_recovery cs lo params = Inr True"
  | (g3) g1 g2 lo hi g3 where "passed (check_gate0 bt ch bc params)"
      "check_gate1 cs params = Inr g1" "passed g1"
      "check_gate2 cs ch params = Inr (g2, lo, hi)" "passed g2"
      "check_v_recovery cs lo params = Inr False"
      "check_gate3 cs mom fr dth pdth params = Inr g3" "\<not> passed g3"
  | (all) g1 g2 lo hi g3 where "passed (check_gate0 bt ch bc params)"
      "check_gate1 cs params = Inr g1" "passed g1"
      "check_gate2 cs ch params = Inr (g2, lo, hi)" "passed g2"
      "check_v_recovery cs lo params = Inr False"
      "check_gate3 cs mom fr dth pdth params = Inr g3" "passed g3"
proof (cases "passed (check_gate0 bt ch bc params)")
  case False
  then show ?thesis by (rule g0)
next
  case p0: True
  show ?thesis
  proof (cases "check_gate1 cs params")
    case (Inl e)
    with assms p0 show ?thesis by (simp add: check_all_gates_def Let_def)
  next
    case r1: (Inr g1)
    show ?thesis
    proof (cases "passed g1")
      case False
      with p0 r1 show ?thesis by (rule g1)
    next
      case p1: True
      show ?thesis
      proof (cases "check_gate2 cs ch params")
        case (Inl e)
        with assms p0 r1 p1 show ?thesis by (simp add: check_all_gates_def Let_def)
      next
        case (Inr t)
        then obtain g2 lo hi where r2: "check_gate2 cs ch params = Inr (g2, lo, hi)"
          by (cases t) auto
        show ?thesis
        proof (cases "passed g2")
          case False
          with p0 r1 p1 r2 show ?thesis by (rule g2)
        next
          case p2: True
          show ?thesis
          proof (cases "check_v_recovery cs lo params")
            case (Inl e)
            with assms p0 r1 p1 r2 p2 show ?thesis by (simp add: check_all_gates_def Let_def)
          next
            case rv: (Inr v)
            show ?thesis
            proof (cases v)
              case True
              with p0 r1 p1 r2 p2 rv show ?thesis by (auto intro: veto)
            next
              case nv: False
              show ?thesis
              proof (cases "check_gate3 cs mom fr dth pdth params")
                case (Inl e)
                with assms p0 r1 p1 r2 p2 rv nv show ?thesis
                  by (simp add: check_all_gates_def Let_def)
              next
                case r3: (Inr g3)
                show ?thesis
                proof (cases "passed g3")
                  case False
                  with p0 r1 p1 r2 p2 rv nv r3 show ?thesis by (auto intro: g3)
                next
                  case True
                  with p0 r1 p1 r2 p2 rv nv r3 show ?thesis by (auto intro: all)
                qed
              qed
            qed
          qed
        qed
      qed
    qed
  qed
qed

subsection \<open>When the evaluation returns\<close>

lemma py_max_returns: "xs \<noteq> [] \<Longrightarrow> \<exists>m. py_max xs = Inr m"
  by (cases xs) simp_all

lemma py_min_returns: "xs \<noteq> [] \<Longrightarrow> \<exists>m. py_min xs = Inr m"
  by (cases xs) simp_all

lemma py_nth_returns:
  "- int (length xs) \<le> i \<Longrightarrow> i < int (length xs) \<Longrightarrow> \<exists>x. py_nth xs i = Inr x"
  by (auto simp: py_nth_def)

lemma py_nth_last_returns: "xs \<noteq> [] \<Longrightarrow> \<exists>x. py_nth xs (- 1) = Inr x"
  by (cases xs) (auto simp: py_nth_def)

lemma py_from_suffix_length:
  "1 \<le> k \<Longrightarrow> k \<le> int (length xs) \<Longrightarrow> length (py_from xs (- k)) = nat k"
  by (auto simp: py_from_def py_bound_def)

lemma check_gate1_returns:
  assumes "1 \<le> exhaustion_candles params"
  shows "\<exists>g. check_gate1 cs params = Inr g"
proof (cases "\<not> gate1_enabled params \<or> int (length cs) < exhaustion_candles params")
  case True
  then show ?thesis by (auto simp: check_gate1_def)
next
  case False
  let ?recent = "py_from cs (- exhaustion_candles params)"
  from False assms have "length ?recent = nat (exhaustion_candles params)"
    by (intro py_from_suffix_length) simp_all
  with assms have n: "?recent \<noteq> []" by auto
  then obtain mx mn where "py_max (map high ?recent) = Inr mx" "py_min (map high ?recent) = Inr mn"
    using py_max_returns [of "map high ?recent"] py_min_returns [of "map high ?recent"] by auto
  moreover from n obtain cl cf where "py_nth (map close ?recent) (- 1) = Inr cl"
    "py_nth (map close ?recent) 0 = Inr cf"
    using py_nth_returns [of "map close ?recent" "- 1"] py_nth_returns [of "map close ?recent" 0]
    by (cases ?recent) auto
  ultimately show ?thesis using False
    by (simp add: check_gate1_def Let_def)
qed

lemma check_gate2_returns:
  assumes "1 \<le> range_window ch params"
  shows "\<exists>t. check_gate2 cs ch params = Inr t"
proof (cases "\<not> gate2_enabled params \<or> int (length cs) < range_window ch params + 2")
  case True
  then show ?thesis by (auto simp: check_gate2_def Let_def)
next
  case False
  let ?n = "range_window ch params"
  let ?rc = "py_slice cs (- (?n + 2)) (- 2)"
  from False assms have "length ?rc = nat ?n"
    by (auto simp: py_slice_def py_bound_def)
  with assms have n: "?rc \<noteq> []" by auto
  then obtain mx mn where "py_max (map high ?rc) = Inr mx" "py_min (map low ?rc) = Inr mn"
    using py_max_returns [of "map high ?rc"] py_min_returns [of "map low ?rc"] by auto
  moreover from False assms obtain p l where "py_nth cs (- 2) = Inr p" "py_nth cs (- 1) = Inr l"
    using py_nth_returns [of cs "- 2"] py_nth_returns [of cs "- 1"] by auto
  ultimately show ?thesis using False
    by (simp add: check_gate2_def Let_def)
qed

lemma volume_check_returns:
  assumes "1 \<le> volume_lookback params"
  shows "\<exists>v. volume_check cs params = Inr v"
proof (cases "int (length cs) \<ge> volume_lookback params")
  case False
  then show ?thesis by (simp add: volume_check_def)
next
  case True
  let ?vs = "sort (map candle_volume (py_from cs (- volume_lookback params)))"
  from True assms have "length ?vs = nat (volume_lookback params)"
    by (simp add: py_from_suffix_length)
  with assms have p: "0 < int (length ?vs)" by auto
  from p have "int (length ?vs) div 2 < int (length ?vs)"
    by (rule int_div_less_self) simp
  moreover from p have "- int (length ?vs) \<le> int (length ?vs) div 2"
    by (smt (verit) pos_imp_zdiv_nonneg_iff)
  ultimately obtain m where "py_nth ?vs (int (length ?vs) div 2) = Inr m"
    using py_nth_returns by blast
  with True show ?thesis
    by (simp add: volume_check_def Let_def)
qed

lemma check_gate3_returns:
  assumes "1 \<le> volume_lookback params"
  shows "\<exists>g. check_gate3 cs mom fr dth pdth params = Inr g"
proof -
  from volume_check_returns [OF assms] obtain v where "volume_check cs params = Inr v"
    by blast
  then show ?thesis
    by (simp add: check_gate3_def Let_def)
qed

lemma check_v_recovery_returns:
  assumes "0 \<le> v_recovery_candles params"
  shows "\<exists>b. check_v_recovery cs lo params = Inr b"
proof (cases "int (length cs) < v_recovery_candles params + 1")
  case True
  then show ?thesis by (auto simp: check_v_recovery_def)
next
  case False
  let ?recent = "py_from cs (- (v_recovery_candles params + 1))"
  from False assms have "length ?recent = nat (v_recovery_candles params + 1)"
    by (intro py_from_suffix_length) simp_all
  with assms have "?recent \<noteq> []" by auto
  then obtain c where "py_nth ?recent (- 1) = Inr c"
    using py_nth_last_returns by blast
  with False show ?thesis
    by (simp add: check_v_recovery_def Let_def)
qed

text \<open>With window sizes of at least one candle the whole evaluation returns a result.\<close>

lemma check_all_gates_returns:
  assumes "1 \<le> exhaustion_candles params" and "1 \<le> range_candles_base params"
    and "1 \<le> range_candles_mid params" and "1 \<le> range_candles_hot params"
    and "1 \<le> volume_lookback params" and "0 \<le> v_recovery_candles params"
  shows "\<exists>r. check_all_gates clock symb cs price ch rp dth fr l24 bt bc mom pdth params = Inr r"
proof -
  from assms have "1 \<le> range_window ch params"
    by (simp add: range_window_def)
  from check_gate2_returns [OF this] obtain g2 lo hi where
    g2: "check_gate2 cs ch params = Inr (g2, lo, hi)"
    by (metis prod_cases3)
  from check_gate1_returns [OF assms(1)] obtain g1 where g1: "check_gate1 cs params = Inr g1"
    by blast
  from check_v_recovery_returns [OF assms(6)] obtain v where
    v: "check_v_recovery cs lo params = Inr v"
    by blast
  from check_gate3_returns [OF assms(5)] obtain g3 where
    g3: "check_gate3 cs mom fr dth pdth params = Inr g3"
    by blast
  show ?thesis
    by (simp add: check_all_gates_def Let_def g1 g2 v g3 split: prod.splits)
qed

text \<open>With a window of zero candles and no candles \<open>max\<close> is applied to an empty
  sequence: the evaluation raises.\<close>

lemma check_gate1_raises:
  "check_gate1 [] (default_params\<lparr>exhaustion_candles := 0\<rparr>) = Inl ValueError"
  by code_simp

lemmas status_neq = status_distinct status_distinct [symmetric]

lemma sum_projr: "\<not> isl x \<Longrightarrow> x = Inr (projr x)"
  by (cases x) simp_all

section \<open>Claims about the gate pipeline\<close>

lemma entry_only_from_last_exit:
  assumes ret: "check_all_gates clock symb cs price ch rp dth fr l24 bt bc mom pdth params = Inr r"
    and ent: "GatesResult.status r = STATUS_ENTRY"
  shows "passed (check_gate0 bt ch bc params)
     \<and> (\<exists>g1 g2 lo hi g3. check_gate1 cs params = Inr g1 \<and> passed g1
          \<and> check_gate2 cs ch params = Inr (g2, lo, hi) \<and> passed g2
          \<and> check_v_recovery cs lo params = Inr False
          \<and> check_gate3 cs mom fr dth pdth params = Inr g3 \<and> passed g3
          \<and> min_rr params \<le> trade_rr price lo hi l24 params)"
  using ret
proof (cases rule: check_all_gates_cases)
  case g0
  from ret ent show ?thesis
    unfolding stop_at_gate0 [OF g0] by (auto simp: status_neq)
next
  case (g1 g1)
  from ret ent show ?thesis
    unfolding stop_at_gate1 [OF g1] by (auto simp: status_neq gates_initial_def split: if_splits)
next
  case (g2 g1 g2 lo hi)
  from ret ent show ?thesis
    unfolding stop_at_gate2 [OF g2] by (auto simp: status_neq split: if_splits)
next
  case (veto g1 g2 lo hi)
  from ret ent show ?thesis
    unfolding stop_at_veto [OF veto] by (auto simp: status_neq)
next
  case (g3 g1 g2 lo hi g3)
  from ret ent show ?thesis
    unfolding stop_at_gate3 [OF g3] by (auto simp: status_neq)
next
  case (all g1 g2 lo hi g3)
  obtain sl t1 t2 t3 q where
    tl: "calculate_trade_levels price lo hi l24 params = (sl, t1, t2, t3, q)"
    by (metis prod_cases5)
  then have q: "trade_rr price lo hi l24 params = q"
    by (simp add: trade_rr_def)
  from ret ent have "\<not> q < min_rr params"
    unfolding all_gates_passed [OF all tl] by (auto simp: status_neq split: if_splits)
  with all q show ?thesis
    by auto
qed












lemma veto_facts:
  "passed (check_gate0 0 12 0 default_params)"
  "\<not> isl (check_gate1 reclaim_candles default_params)"
  "passed (projr (check_gate1 reclaim_candles default_params))"
  "\<not> isl (check_gate2 reclaim_candles 12 default_params)"
  "fst (snd (projr (check_gate2 reclaim_candles 12 default_params))) = 99"
  "check_v_recovery reclaim_candles 99 default_params = Inr True"
  "map_sum id GatesResult.status
     (check_all_gates 0 [] reclaim_candles 100 12 90 1 0 90 0 0 0 1 default_params)
   = Inr STATUS_INTEREST"
  "map_sum id gate2
     (check_all_gates 0 [] reclaim_candles 100 12 90 1 0 90 0 0 0 1 default_params)
   \<noteq> Inr gate_default"
  by code_simp+


text \<open>
  C3. The spec places the V-recovery veto between gate 1 and gate 2 and lets it force
  OBSERVATION whenever a close of the window lies below the range low and the last candle
  closes back above it. The code runs the check only after gate 2 has passed. On
  \<open>reclaim_candles\<close> gates 0 and 1 pass and the pattern holds for the range low 99 of
  gate 2, yet gate 2 is evaluated, fails on the reclaiming close, and the status is INTEREST.
\<close>

theorem veto_pattern_gives_interest:
  "passed (check_gate0 0 12 0 default_params)
   \<and> passed (projr (check_gate1 reclaim_candles default_params))
   \<and> check_v_recovery reclaim_candles
        (fst (snd (projr (check_gate2 reclaim_candles 12 default_params)))) default_params
      = Inr True
   \<and> map_sum id GatesResult.status
        (check_all_gates 0 [] reclaim_candles 100 12 90 1 0 90 0 0 0 1 default_params)
      = Inr STATUS_INTEREST
   \<and> STATUS_INTEREST \<noteq> STATUS_OBSERVATION
   \<and> map_sum id gate2
        (check_all_gates 0 [] reclaim_candles 100 12 90 1 0 90 0 0 0 1 default_params)
      \<noteq> Inr gate_default"
  using veto_facts status_distinct by simp


text \<open>Gate 2 passes only if the last candle closes below the range low, the veto fires
  only if it closes above: with gate 2 enabled the veto can never fire.\<close>

lemma py_nth_last:
  assumes "py_nth xs (- 1) = Inr x"
  shows "xs \<noteq> [] \<and> x = last xs"
proof -
  from assms have n: "xs \<noteq> []" and x: "x = xs ! nat (int (length xs) + - 1)"
    by (auto simp: py_nth_def split: if_splits)
  from n have "nat (int (length xs) + - 1) = length xs - 1"
    by (cases xs) simp_all
  with n x show ?thesis
    by (simp add: last_conv_nth)
qed

lemma py_nth_from_last: "py_nth (py_from xs a) (- 1) = Inr x \<Longrightarrow> x = last xs"
  by (auto simp: py_from_def dest!: py_nth_last)

lemma gate2_pass_last_close:
  assumes "gate2_enabled params" and "check_gate2 cs ch params = Inr (g2, lo, hi)"
    and "passed g2"
  shows "cs \<noteq> [] \<and> close (last cs) < lo"
  using assms
  by (auto simp: check_gate2_def Let_def gate_not_enough_def
      split: if_splits sum.splits dest!: py_nth_last)

lemma veto_dead_after_gate2:
  assumes "gate2_enabled params" and "check_gate2 cs ch params = Inr (g2, lo, hi)"
    and "passed g2"
  shows "check_v_recovery cs lo params \<noteq> Inr True"
proof
  assume v: "check_v_recovery cs lo params = Inr True"
  from gate2_pass_last_close [OF assms] have c: "close (last cs) < lo" by simp
  from v obtain x where "py_nth (py_from cs (- (v_recovery_candles params + 1))) (- 1) = Inr x"
    and "close x > lo"
    by (auto simp: check_v_recovery_def Let_def split: if_splits sum.splits)
  with c show False
    by (auto dest!: py_nth_from_last)
qed

text \<open>
  C4 (as the code has it). For fixed symbol, candles, metrics and parameters, two runs of
  \<open>check_all_gates\<close> agree in every field but \<open>timestamp\<close>, which is the integer part of
  the wall clock read during the run.
\<close>

theorem deterministic_up_to_timestamp:
  "map_sum id (\<lambda>r. r\<lparr>timestamp := 0\<rparr>)
     (check_all_gates t1 symb cs price ch rp dth fr l24 bt bc mom pdth params)
   = map_sum id (\<lambda>r. r\<lparr>timestamp := 0\<rparr>)
     (check_all_gates t2 symb cs price ch rp dth fr l24 bt bc mom pdth params)
   \<and> map_sum id timestamp
       (check_all_gates t1 symb cs price ch rp dth fr l24 bt bc mom pdth params)
     = map_sum id (\<lambda>r. py_int t1)
       (check_all_gates t1 symb cs price ch rp dth fr l24 bt bc mom pdth params)"
  by (auto simp: check_all_gates_def gates_initial_def Let_def split: sum.splits prod.splits)

text \<open>Two runs on equal arguments at different clock readings return different results.\<close>

theorem clock_changes_result:
  "check_all_gates 1 [] [] 100 0 50 1 0 90 0 0 0 1 default_params
   \<noteq> check_all_gates 2 [] [] 100 0 50 1 0 90 0 0 0 1 default_params"
  by code_simp

lemma entry_facts:
  "\<not> passed (check_gate0 5 12 10 default_params)"
  "map_sum id GatesResult.status (check_all_gates 0 [] breakdown_candles 180 12 90 1 0.01 90 5 10 0 1
       (default_params\<lparr>gate0_enabled := False\<rparr>)) = Inr STATUS_ENTRY"
  "\<not> isl (check_gate1 uneven_high_candles default_params)"
  "\<not> passed (projr (check_gate1 uneven_high_candles default_params))"
  "map_sum id GatesResult.status (check_all_gates 0 [] uneven_high_candles 180 12 90 1 0.01 90 0 0 0 1
       (default_params\<lparr>gate1_enabled := False\<rparr>)) = Inr STATUS_ENTRY"
  "\<not> isl (check_gate2 breakdown_candles 40 (default_params\<lparr>min_rr := 0\<rparr>))"
  "\<not> passed (fst (projr (check_gate2 breakdown_candles 40 (default_params\<lparr>min_rr := 0\<rparr>))))"
  "map_sum id GatesResult.status (check_all_gates 0 [] breakdown_candles 180 40 90 1 0.01 90 0 0 0 1
       no_gate2_rr0) = Inr STATUS_ENTRY"
  "\<not> isl (check_gate3 breakdown_candles 5 0 1 1 default_params)"
  "\<not> passed (projr (check_gate3 breakdown_candles 5 0 1 1 default_params))"
  "map_sum id GatesResult.status (check_all_gates 0 [] breakdown_candles 180 12 90 1 0 90 0 0 5 1
       (default_params\<lparr>gate3_enabled := False\<rparr>)) = Inr STATUS_ENTRY"
  by code_simp+

lemma sum_projr_ex: "\<not> isl x \<Longrightarrow> P (projr x) \<Longrightarrow> \<exists>g. x = Inr g \<and> P g"
  by (cases x) simp_all

text \<open>A disabled gate 2 reports the range 0 to 0: the stop is at 0, the risk is minus the
  entry price, and the risk-reward is 0 unless the price is negative.\<close>

lemma trade_rr_no_range:
  "trade_rr price 0 0 l24 params = (if price < 0 then - tp1_ratio params else 0)"
  by (simp add: trade_rr_def calculate_trade_levels_def Let_def)

lemma gate2_disabled_range:
  "\<not> gate2_enabled params \<Longrightarrow> check_gate2 cs ch params = Inr (gate_disabled, 0, 0)"
  by (simp add: check_gate2_def)

lemma gate2_disabled_entry:
  assumes "\<not> gate2_enabled params" and "0 \<le> price"
    and "check_all_gates clock symb cs price ch rp dth fr l24 bt bc mom pdth params = Inr r"
    and "GatesResult.status r = STATUS_ENTRY"
  shows "min_rr params \<le> 0"
proof -
  from entry_only_from_last_exit [OF assms(3,4)] obtain g2 lo hi where
    "check_gate2 cs ch params = Inr (g2, lo, hi)"
    and m: "min_rr params \<le> trade_rr price lo hi l24 params"
    by blast
  with gate2_disabled_range [OF assms(1), of cs ch] have "lo = 0" "hi = 0"
    by simp_all
  with m assms(2) show ?thesis
    by (simp add: trade_rr_no_range)
qed

lemma no_gate2_never_entry:
  "check_all_gates clock symb cs price ch rp dth fr l24 bt bc mom pdth no_gate2 = Inr r
     \<Longrightarrow> GatesResult.status r \<noteq> STATUS_ENTRY"
proof
  assume ret: "check_all_gates clock symb cs price ch rp dth fr l24 bt bc mom pdth no_gate2 = Inr r"
    and ent: "GatesResult.status r = STATUS_ENTRY"
  have off: "\<not> gate2_enabled no_gate2"
    by (simp add: no_gate2_def default_params_def)
  from entry_only_from_last_exit [OF ret ent] obtain g2 lo hi where
    "check_gate2 cs ch no_gate2 = Inr (g2, lo, hi)"
    and m: "min_rr no_gate2 \<le> trade_rr price lo hi l24 no_gate2"
    by blast
  with gate2_disabled_range [OF off, of cs ch] have "lo = 0" "hi = 0"
    by simp_all
  with m show False
    by (simp add: trade_rr_no_range no_gate2_def default_params_def split: if_splits)
qed

text \<open>
  C10 (as the code has it). A gate whose enabled flag is false passes with score 100 whatever
  the market inputs are; a disabled gate 2 reports the range 0 to 0. With gate 0, gate 1 or
  gate 3 disabled, \<open>check_all_gates\<close> reaches ENTRY on inputs that the enabled gate
  rejects. Gate 2 is different: the range it reports when disabled makes the risk-reward 0 for
  every price that is not negative, so with gate 2 disabled ENTRY is reached only when
  \<open>min_rr\<close> is not positive; with \<open>min_rr\<close> 0 it is reached on an input that the
  enabled gate rejects.
\<close>

theorem disabled_gate_passes:
  "(\<not> gate0_enabled params \<longrightarrow>
      passed (check_gate0 bt ch bc params) \<and> GateResult.score (check_gate0 bt ch bc params) = 100)
 \<and> (\<not> gate1_enabled params \<longrightarrow>
      (\<exists>g. check_gate1 cs params = Inr g \<and> passed g \<and> GateResult.score g = 100))
 \<and> (\<not> gate2_enabled params \<longrightarrow>
      (\<exists>g. check_gate2 cs ch params = Inr (g, 0, 0) \<and> passed g \<and> GateResult.score g = 100))
 \<and> (\<not> gate3_enabled params \<longrightarrow>
      (\<exists>g. check_gate3 cs mom fr dth pdth params = Inr g \<and> passed g \<and> GateResult.score g = 100))
 \<and> (\<not> passed (check_gate0 5 12 10 default_params)
     \<and> map_sum id GatesResult.status
          (check_all_gates 0 [] breakdown_candles 180 12 90 1 0.01 90 5 10 0 1
             (default_params\<lparr>gate0_enabled := False\<rparr>)) = Inr STATUS_ENTRY)
 \<and> ((\<exists>g. check_gate1 uneven_high_candles default_params = Inr g \<and> \<not> passed g)
     \<and> map_sum id GatesResult.status
          (check_all_gates 0 [] uneven_high_candles 180 12 90 1 0.01 90 0 0 0 1
             (default_params\<lparr>gate1_enabled := False\<rparr>)) = Inr STATUS_ENTRY)
 \<and> ((\<exists>g. check_gate3 breakdown_candles 5 0 1 1 default_params = Inr g \<and> \<not> passed g)
     \<and> map_sum id GatesResult.status
          (check_all_gates 0 [] breakdown_candles 180 12 90 1 0 90 0 0 5 1
             (default_params\<lparr>gate3_enabled := False\<rparr>)) = Inr STATUS_ENTRY)
 \<and> (\<not> gate2_enabled params \<and> 0 \<le> price
     \<and> check_all_gates clock symb cs price ch rp dth fr l24 bt bc mom pdth params = Inr r
     \<and> GatesResult.status r = STATUS_ENTRY
     \<longrightarrow> min_rr params \<le> 0)
 \<and> ((\<exists>t. check_gate2 breakdown_candles 40 (default_params\<lparr>min_rr := 0\<rparr>) = Inr t
          \<and> \<not> passed (fst t))
     \<and> map_sum id GatesResult.status
          (check_all_gates 0 [] breakdown_candles 180 40 90 1 0.01 90 0 0 0 1 no_gate2_rr0)
        = Inr STATUS_ENTRY)"
proof -
  have a: "passed (check_gate0 bt ch bc params) \<and> GateResult.score (check_gate0 bt ch bc params) = 100"
    if "\<not> gate0_enabled params"
    using that by (simp add: check_gate0_def gate_disabled_def)
  have b: "\<exists>g. check_gate1 cs params = Inr g \<and> passed g \<and> GateResult.score g = 100"
    if "\<not> gate1_enabled params"
    using that by (simp add: check_gate1_def gate_disabled_def)
  have c: "\<exists>g. check_gate2 cs ch params = Inr (g, 0, 0) \<and> passed g \<and> GateResult.score g = 100"
    if "\<not> gate2_enabled params"
    using that by (simp add: check_gate2_def gate_disabled_def)
  have d: "\<exists>g. check_gate3 cs mom fr dth pdth params = Inr g \<and> passed g \<and> GateResult.score g = 100"
    if "\<not> gate3_enabled params"
    using that by (simp add: check_gate3_def gate_disabled_def)
  have e: "\<exists>g. check_gate1 uneven_high_candles default_params = Inr g \<and> \<not> passed g"
    by (intro sum_projr_ex entry_facts)
  have f: "\<exists>t. check_gate2 breakdown_candles 40 (default_params\<lparr>min_rr := 0\<rparr>) = Inr t
          \<and> \<not> passed (fst t)"
    by (intro sum_projr_ex entry_facts)
  have g: "\<exists>g. check_gate3 breakdown_candles 5 0 1 1 default_params = Inr g \<and> \<not> passed g"
    by (intro sum_projr_ex entry_facts)
  have h: "min_rr params \<le> 0"
    if "\<not> gate2_enabled params" "0 \<le> price"
      "check_all_gates clock symb cs price ch rp dth fr l24 bt bc mom pdth params = Inr r"
      "GatesResult.status r = STATUS_ENTRY"
    using that by (rule gate2_disabled_entry)
  from a b c d e f g h entry_facts(1,2,5,8,11) show ?thesis
    by blast
qed

lemma disabled_facts:
  "\<not> gate0_enabled all_disabled" "\<not> gate1_enabled all_disabled"
  "\<not> gate2_enabled all_disabled" "\<not> gate3_enabled all_disabled"
  "\<not> passed (check_gate0 5 12 10 (all_disabled\<lparr>gate0_enabled := True\<rparr>))"
  "check_gate1 [] (all_disabled\<lparr>gate1_enabled := True\<rparr>) = Inr gate_not_enough"
  "check_gate2 [] 12 (all_disabled\<lparr>gate2_enabled := True\<rparr>) = Inr (gate_not_enough, 0, 0)"
  "\<not> passed (projr (check_gate3 [] 5 0 1 1 (all_disabled\<lparr>gate3_enabled := True\<rparr>)))"
  "\<not> passed gate_not_enough"
  "\<not> gate2_enabled no_gate2_rr0" "min_rr no_gate2_rr0 = 0"
  "\<not> isl (check_all_gates 0 [] breakdown_candles 180 40 90 1 0.01 90 0 0 0 1 no_gate2_rr0)"
  "GatesResult.status (projr (check_all_gates 0 [] breakdown_candles 180 40 90 1 0.01 90 0 0 0 1
      no_gate2_rr0)) = STATUS_ENTRY"
  by code_simp+

theorem disabled_gate_passes_witness:
  "\<not> gate0_enabled all_disabled \<and> \<not> gate1_enabled all_disabled
   \<and> \<not> gate2_enabled all_disabled \<and> \<not> gate3_enabled all_disabled
   \<and> \<not> passed (check_gate0 5 12 10 (all_disabled\<lparr>gate0_enabled := True\<rparr>))
   \<and> passed (check_gate0 5 12 10 all_disabled)
   \<and> GateResult.score (check_gate0 5 12 10 all_disabled) = 100
   \<and> check_gate1 [] (all_disabled\<lparr>gate1_enabled := True\<rparr>) = Inr gate_not_enough
   \<and> (\<exists>g. check_gate1 [] all_disabled = Inr g \<and> passed g \<and> GateResult.score g = 100)
   \<and> check_gate2 [] 12 (all_disabled\<lparr>gate2_enabled := True\<rparr>) = Inr (gate_not_enough, 0, 0)
   \<and> (\<exists>g. check_gate2 [] 12 all_disabled = Inr (g, 0, 0) \<and> passed g \<and> GateResult.score g = 100)
   \<and> \<not> passed (projr (check_gate3 [] 5 0 1 1 (all_disabled\<lparr>gate3_enabled := True\<rparr>)))
   \<and> (\<exists>g. check_gate3 [] 5 0 1 1 all_disabled = Inr g \<and> passed g \<and> GateResult.score g = 100)
   \<and> \<not> passed gate_not_enough
   \<and> \<not> gate2_enabled no_gate2_rr0 \<and> (0::real) \<le> 180
   \<and> (\<exists>r. check_all_gates 0 [] breakdown_candles 180 40 90 1 0.01 90 0 0 0 1 no_gate2_rr0 = Inr r
          \<and> GatesResult.status r = STATUS_ENTRY)
   \<and> min_rr no_gate2_rr0 \<le> 0"
proof -
  let ?X = "check_all_gates 0 [] breakdown_candles 180 40 90 1 0.01 90 0 0 0 1 no_gate2_rr0"
  have X: "?X = Inr (projr ?X)"
    by (intro sum_projr disabled_facts)
  from disabled_gate_passes [where params = no_gate2_rr0 and price = 180 and clock = 0
      and symb = "[]" and cs = breakdown_candles and ch = 40 and rp = 90 and dth = 1
      and fr = "0.01" and ?l24.0 = 90 and bt = 0 and bc = 0 and mom = 0 and pdth = 1
      and r = "projr ?X"] X disabled_facts(10,13)
  have m: "min_rr no_gate2_rr0 \<le> 0"
    by simp
  from X disabled_facts(13)
  have e: "\<exists>r. ?X = Inr r \<and> GatesResult.status r = STATUS_ENTRY"
    by metis
  from disabled_gate_passes [where params = all_disabled and bt = 5 and ch = 12 and bc = 10
      and cs = "[]" and mom = 5 and fr = 0 and dth = 1 and pdth = 1] disabled_facts m e
  show ?thesis
    by simp
qed

text \<open>The claim as worded fails for gate 2: with the default parameters (\<open>min_rr\<close>
  1.5) and gate 2 disabled, no input reaches ENTRY.\<close>

theorem gate2_disabled_blocks_entry:
  "\<not> gate2_enabled no_gate2 \<and> min_rr no_gate2 = 3 / 2
   \<and> \<not> (\<exists>clock symb cs price ch rp dth fr l24 bt bc mom pdth r.
          check_all_gates clock symb cs price ch rp dth fr l24 bt bc mom pdth no_gate2 = Inr r
          \<and> GatesResult.status r = STATUS_ENTRY)"
  using no_gate2_never_entry by (auto simp: no_gate2_def default_params_def)

section \<open>Claims about the scheduler tick\<close>

lemmas level_defs = level1_counts_def level2_counts_def level3_counts_def
  level1_fires_def level2_fires_def level3_fires_def

lemma tick_level3_fields:
  "pump_countdown (tick_level3 w) =
     (if level3_fires w then 10 else if level3_counts w then pump_countdown w - 1
      else pump_countdown w)"
  "pump_detect_in_progress (tick_level3 w) =
     (pump_detect_in_progress w \<or> (level3_fires w \<and> \<not> pump_worker_running w))"
  "price_countdown (tick_level3 w) = price_countdown w"
  "full_countdown (tick_level3 w) = full_countdown w"
  "scan_in_progress (tick_level3 w) = scan_in_progress w"
  "price_update_in_progress (tick_level3 w) = price_update_in_progress w"
  "price_worker_running (tick_level3 w) = price_worker_running w"
  "rows_nonempty (tick_level3 w) = rows_nonempty w"
  by (simp_all add: tick_level3_def start_pump_detect_def level_defs Let_def)

lemma tick_level2_fields:
  "price_countdown (tick_level2 w) =
     (if level2_fires w then 30 else if level2_counts w then price_countdown w - 1
      else price_countdown w)"
  "price_update_in_progress (tick_level2 w) =
     (price_update_in_progress w \<or> (level2_fires w \<and> \<not> price_worker_running w))"
  "pump_countdown (tick_level2 w) = pump_countdown w"
  "pump_detect_in_progress (tick_level2 w) = pump_detect_in_progress w"
  "full_countdown (tick_level2 w) = full_countdown w"
  "scan_in_progress (tick_level2 w) = scan_in_progress w"
  by (simp_all add: tick_level2_def start_price_update_def level_defs Let_def)

lemma tick_level1_fields:
  "full_countdown (tick_level1 w) =
     (if level1_fires w then 120 else if level1_counts w then full_countdown w - 1
      else full_countdown w)"
  "scan_in_progress (tick_level1 w) = (scan_in_progress w \<or> level1_fires w)"
  "pump_countdown (tick_level1 w) = (if level1_fires w then 10 else pump_countdown w)"
  "price_countdown (tick_level1 w) = (if level1_fires w then 30 else price_countdown w)"
  "pump_detect_in_progress (tick_level1 w) = pump_detect_in_progress w"
  "price_update_in_progress (tick_level1 w) = price_update_in_progress w"
  by (simp_all add: tick_level1_def start_scan_def level_defs Let_def)

lemma tick_candidates_fields:
  "full_countdown (tick_candidates w) = full_countdown w"
  "price_countdown (tick_candidates w) = price_countdown w"
  "pump_countdown (tick_candidates w) = pump_countdown w"
  "scan_in_progress (tick_candidates w) = scan_in_progress w"
  "pump_detect_in_progress (tick_candidates w) = pump_detect_in_progress w"
  "price_update_in_progress (tick_candidates w) = price_update_in_progress w"
  by (simp_all add: tick_candidates_def start_cand_update_def Let_def)

text \<open>Level 2 and level 3 leave the guard and the countdown of level 1 as they were, and
  level 3 leaves those of level 2.\<close>

lemma level_guards_kept:
  "level2_counts (tick_level3 w) = level2_counts w"
  "level2_fires (tick_level3 w) = level2_fires w"
  "level1_counts (tick_level2 (tick_level3 w)) = level1_counts w"
  "level1_fires (tick_level2 (tick_level3 w)) = level1_fires w"
  by (simp_all add: level_defs tick_level3_fields tick_level2_fields)

lemma tick_level3_started:
  "started (tick_level3 w) =
     started w @ (if level3_fires w \<and> \<not> pump_worker_running w then [PumpDetectorW] else [])"
  "cand_update_in_progress (tick_level3 w) = cand_update_in_progress w"
  "cand_worker_running (tick_level3 w) = cand_worker_running w"
  "cand_countdown (tick_level3 w) = cand_countdown w"
  by (simp_all add: tick_level3_def start_pump_detect_def level_defs Let_def)

lemma tick_level2_started:
  "started (tick_level2 w) =
     started w @ (if level2_fires w \<and> \<not> price_worker_running w then [PriceUpdateW] else [])"
  "cand_update_in_progress (tick_level2 w) = cand_update_in_progress w"
  "cand_worker_running (tick_level2 w) = cand_worker_running w"
  "cand_countdown (tick_level2 w) = cand_countdown w"
  "rows_nonempty (tick_level2 w) = rows_nonempty w"
  by (simp_all add: tick_level2_def start_price_update_def level_defs Let_def)

lemma tick_level1_started:
  "started (tick_level1 w) = started w @ (if level1_fires w then [ScannerW] else [])"
  "cand_update_in_progress (tick_level1 w) = cand_update_in_progress w"
  "cand_worker_running (tick_level1 w) = cand_worker_running w"
  "cand_countdown (tick_level1 w) = cand_countdown w"
  "rows_nonempty (tick_level1 w) = rows_nonempty w"
  by (simp_all add: tick_level1_def start_scan_def level_defs Let_def)

lemma tick_candidates_started:
  "started (tick_candidates w) =
     started w @ (if \<not> scan_in_progress w \<and> \<not> cand_update_in_progress w \<and> rows_nonempty w
                     \<and> cand_countdown w - 1 \<le> 0 \<and> \<not> cand_worker_running w
                  then [CandidatesUpdateW] else [])"
  by (simp add: tick_candidates_def start_cand_update_def Let_def)

lemma tick_started:
  "started (tick_all_levels w) =
     started w
     @ (if level3_fires w \<and> \<not> pump_worker_running w then [PumpDetectorW] else [])
     @ (if level2_fires w \<and> \<not> price_worker_running w then [PriceUpdateW] else [])
     @ (if level1_fires w then [ScannerW] else [])
     @ (if cand_fires w \<and> \<not> cand_worker_running w then [CandidatesUpdateW] else [])"
  unfolding tick_all_levels_def
  by (simp add: tick_candidates_started tick_level1_started tick_level2_started
      tick_level3_started tick_level1_fields tick_level2_fields tick_level3_fields
      level_guards_kept cand_fires_def)

text \<open>
  C7 (as the code has it). In one tick a level counts down only while its guard holds
  (level 3: no pump detection in progress and rows present; level 2: no price update and no
  full scan in progress and rows present; level 1: no full scan in progress) and fires when
  the decremented countdown is not positive, which resets it to 10, 30 or 120. When level 1
  fires, the countdowns of level 2 and level 3 are 30 and 10 after the same tick. The firing
  of level 2 or level 3 enters no other level's countdown or in-progress flag. A level that
  fires starts its worker unless the previous worker of that level is still running.
\<close>

theorem tick_countdowns:
  "pump_countdown (tick_all_levels w) =
     (if level1_fires w then 10
      else if level3_fires w then 10
      else if level3_counts w then pump_countdown w - 1
      else pump_countdown w)
 \<and> price_countdown (tick_all_levels w) =
     (if level1_fires w then 30
      else if level2_fires w then 30
      else if level2_counts w then price_countdown w - 1
      else price_countdown w)
 \<and> full_countdown (tick_all_levels w) =
     (if level1_fires w then 120
      else if level1_counts w then full_countdown w - 1
      else full_countdown w)
 \<and> scan_in_progress (tick_all_levels w) = (scan_in_progress w \<or> level1_fires w)
 \<and> price_update_in_progress (tick_all_levels w) =
     (price_update_in_progress w \<or> (level2_fires w \<and> \<not> price_worker_running w))
 \<and> pump_detect_in_progress (tick_all_levels w) =
     (pump_detect_in_progress w \<or> (level3_fires w \<and> \<not> pump_worker_running w))
 \<and> started (tick_all_levels w) =
     started w
     @ (if level3_fires w \<and> \<not> pump_worker_running w then [PumpDetectorW] else [])
     @ (if level2_fires w \<and> \<not> price_worker_running w then [PriceUpdateW] else [])
     @ (if level1_fires w then [ScannerW] else [])
     @ (if cand_fires w \<and> \<not> cand_worker_running w then [CandidatesUpdateW] else [])"
proof -
  have "started (tick_all_levels w) =
     started w
     @ (if level3_fires w \<and> \<not> pump_worker_running w then [PumpDetectorW] else [])
     @ (if level2_fires w \<and> \<not> price_worker_running w then [PriceUpdateW] else [])
     @ (if level1_fires w then [ScannerW] else [])
     @ (if cand_fires w \<and> \<not> cand_worker_running w then [CandidatesUpdateW] else [])"
    by (rule tick_started)
  then show ?thesis
    unfolding tick_all_levels_def
    by (simp add: tick_candidates_fields tick_level1_fields tick_level2_fields
        tick_level3_fields level_guards_kept)
qed

text \<open>The claim as the spec words it fails: a level whose guard is false does not count
  down. With a full scan in progress the countdown of level 1 stays at 5, and with no rows the
  countdowns of level 3 and level 2 stay at 10 and 30.\<close>

theorem frozen_countdown:
  "full_countdown (tick_all_levels (initial_window\<lparr>scan_in_progress := True, full_countdown := 5\<rparr>)) = 5
   \<and> pump_countdown (tick_all_levels initial_window) = 10
   \<and> price_countdown (tick_all_levels initial_window) = 30"
  by code_simp

section \<open>Claims about the indicator formulas\<close>


















section \<open>Claims about range position and distance to the high\<close>

lemma refresh_status_keeps:
  "dist_high_pct (refresh_status row) = dist_high_pct row"
  "range_position (refresh_status row) = range_position row"
  by (simp_all add: refresh_status_def)

lemma update_prices_dist:
  "dist_high_pct (update_prices row t ta tu) =
     (if highPrice24h t > 0 then (highPrice24h t - lastPrice t) / highPrice24h t * 100
      else dist_high_pct row)"
  by (simp add: update_prices_def refresh_status_keeps Let_def)

lemma update_prices_range:
  "range_position (update_prices row t ta tu) =
     (if highPrice24h t > lowPrice24h t
      then (lastPrice t - lowPrice24h t) / (highPrice24h t - lowPrice24h t) * 100
      else range_position row)"
  by (simp add: update_prices_def refresh_status_keeps Let_def)

text \<open>
  C5 (as the code has it). \<open>range_position\<close> of math_utils lies between 0 and 100 on
  every input and is 50 when high is not above low. The distance to the high is not negative
  whenever the price does not exceed the 24h high: for \<open>dist_to_high_pct\<close> of math_utils,
  and for the price refresh when the 24h high is positive.
\<close>

theorem position_bounds:
  "0 \<le> range_position_f price lo hi \<and> range_position_f price lo hi \<le> 100
 \<and> (hi \<le> lo \<longrightarrow> range_position_f price lo hi = 50)
 \<and> (price \<le> hi \<longrightarrow> 0 \<le> dist_to_high_pct price hi)
 \<and> (0 < highPrice24h t \<and> lastPrice t \<le> highPrice24h t \<longrightarrow>
       0 \<le> dist_high_pct (update_prices row t ta tu))"
proof (intro conjI impI)
  show "0 \<le> range_position_f price lo hi" "range_position_f price lo hi \<le> 100"
    by (simp_all add: range_position_f_def clamp_def)
next
  assume "hi \<le> lo"
  then show "range_position_f price lo hi = 50"
    by (simp add: range_position_f_def)
next
  assume "price \<le> hi"
  then show "0 \<le> dist_to_high_pct price hi"
    by (simp add: dist_to_high_pct_def)
next
  assume "0 < highPrice24h t \<and> lastPrice t \<le> highPrice24h t"
  then show "0 \<le> dist_high_pct (update_prices row t ta tu)"
    by (simp add: update_prices_dist)
qed

theorem position_bounds_witness:
  "range_position_f 100 90 110 = 50 \<and> range_position_f 100 100 100 = 50
   \<and> (100::real) \<le> 110 \<and> dist_to_high_pct 100 110 = 10
   \<and> 0 < highPrice24h ticker_in_range
   \<and> lastPrice ticker_in_range \<le> highPrice24h ticker_in_range
   \<and> 0 \<le> dist_high_pct (update_prices default_row ticker_in_range 0 0)
   \<and> dist_high_pct (update_prices default_row ticker_in_range 0 0) = 100 / 11"
proof -
  have "range_position_f 100 90 110 = 50" "dist_to_high_pct 100 110 = 10"
    "0 < highPrice24h ticker_in_range"
    "lastPrice ticker_in_range \<le> highPrice24h ticker_in_range"
    "dist_high_pct (update_prices default_row ticker_in_range 0 0) = 100 / 11"
    by (simp_all add: range_position_f_def clamp_def dist_to_high_pct_def update_prices_dist
        ticker_in_range_def)
  with position_bounds [of 100 100 100 ticker_in_range default_row 0 0]
  show ?thesis by simp
qed

text \<open>The claim as the spec words it fails when the last price is above the 24h high
  (120 against 110, low 90): both distances to the high are negative, and the range position
  the price refresh stores is 150.\<close>

theorem price_above_high:
  "0 < highPrice24h ticker_above_high
   \<and> dist_to_high_pct (lastPrice ticker_above_high) (highPrice24h ticker_above_high) < 0
   \<and> dist_high_pct (update_prices default_row ticker_above_high 0 0) < 0
   \<and> range_position (update_prices default_row ticker_above_high 0 0) = 150"
  by (simp add: dist_to_high_pct_def update_prices_dist update_prices_range
      ticker_above_high_def)

section \<open>Claims about the bridge snapshot\<close>

lemma status_priority_values:
  "status_priority STATUS_ENTRY = 0" "status_priority STATUS_READINESS = 1"
  "status_priority STATUS_INTEREST = 2" "status_priority STATUS_OBSERVATION = 3"
  "status_priority STATUS_NONE = 4"
  by (simp_all add: status_priority_def STATUS_ENTRY_def STATUS_READINESS_def
      STATUS_INTEREST_def STATUS_OBSERVATION_def STATUS_NONE_def)

lemma item_key_row: "item_key (row_to_dict row) = (status_priority (status row), - score row)"
  by (simp add: item_key_def row_to_dict_def dict_get_def)

lemma sorted_items_sorted: "sorted (map item_key (sorted_items rows))"
  by (simp add: sorted_items_def)

lemma key_order:
  "(item_key a \<le> item_key b) =
   (fst (item_key a) < fst (item_key b)
    \<or> (fst (item_key a) = fst (item_key b) \<and> snd (item_key a) \<le> snd (item_key b)))"
  by (auto simp: less_eq_prod_def)

lemma top_items_prefix: "\<exists>n. top_items rows top_n = take n (sorted_items rows)"
  by (auto simp: top_items_def py_upto_def)

text \<open>
  C6 (as the code has it). The published items are ordered by status priority ascending
  (ENTRY 0, READINESS 1, INTEREST 2, OBSERVATION 3, none 4), then by score descending; items
  with equal status priority and equal score keep the order they have in the store, and the
  published list is a prefix of the sorted list.
\<close>

theorem published_order:
  "sorted_wrt (\<lambda>a b. fst (item_key a) < fst (item_key b)
                \<or> (fst (item_key a) = fst (item_key b) \<and> snd (item_key a) \<le> snd (item_key b)))
     (top_items rows top_n)
 \<and> (\<forall>k. filter (\<lambda>x. item_key x = k) (sorted_items rows)
        = filter (\<lambda>x. item_key x = k) (collect_items rows))
 \<and> top_items rows top_n = py_upto (sorted_items rows) top_n
 \<and> item_key (row_to_dict row) = (status_priority (status row), - score row)
 \<and> status_priority STATUS_ENTRY = 0 \<and> status_priority STATUS_READINESS = 1
 \<and> status_priority STATUS_INTEREST = 2 \<and> status_priority STATUS_OBSERVATION = 3
 \<and> status_priority STATUS_NONE = 4"
proof -
  have "sorted_wrt (\<lambda>a b. item_key a \<le> item_key b) (sorted_items rows)"
    using sorted_items_sorted [of rows] by (simp add: sorted_map)
  moreover obtain n where "top_items rows top_n = take n (sorted_items rows)"
    using top_items_prefix by blast
  ultimately have "sorted_wrt (\<lambda>a b. item_key a \<le> item_key b) (top_items rows top_n)"
    by (simp add: sorted_wrt_take)
  then have "sorted_wrt (\<lambda>a b. fst (item_key a) < fst (item_key b)
                \<or> (fst (item_key a) = fst (item_key b) \<and> snd (item_key a) \<le> snd (item_key b)))
     (top_items rows top_n)"
    by (simp add: key_order)
  moreover have "\<forall>k. filter (\<lambda>x. item_key x = k) (sorted_items rows)
        = filter (\<lambda>x. item_key x = k) (collect_items rows)"
    by (simp add: sorted_items_def sort_key_stable)
  ultimately show ?thesis
    by (simp add: top_items_def item_key_row status_priority_values)
qed

text \<open>The claim as the spec words it fails: two rows with equal status and score, stored
  as B (code point 66) then A (65), are published as B, A.\<close>

theorem tie_keeps_store_order:
  "item_key (row_to_dict (snd (row_named [66]))) = item_key (row_to_dict (snd (row_named [65])))
   \<and> map (\<lambda>x. dict_get x ''symbol'' JNull) (top_items [row_named [66], row_named [65]] 30)
       = [JStr [66], JStr [65]]
   \<and> (65::nat) < 66"
  by code_simp

lemma tmp_path_differs: "bridge_path d @ ''.tmp'' \<noteq> bridge_path d"
  by simp











end
